theory Spec2Isabelle
  imports Main
begin

section \<open>The tsv virtual table of cgatcore/database.py\<close>

text \<open>
  The development embeds \<^verbatim>\<open>_getfiledata\<close>, \<^verbatim>\<open>_VirtualTable\<close>, \<^verbatim>\<open>_Table\<close> and
  \<^verbatim>\<open>_Cursor\<close> of \<^verbatim>\<open>src/cgatcore/database.py\<close>. A Python \<^verbatim>\<open>str\<close> is a \<^typ>\<open>string\<close>; each
  \<^typ>\<open>char\<close> is read as the code point of the same number (code points above 255 are
  outside the model). Python's unbounded \<^verbatim>\<open>int\<close> is \<^typ>\<open>int\<close>. Every exception the code
  can raise is a value of \<open>error\<close>.
\<close>

subsection \<open>Exceptions\<close>

text \<open>
  \<open>IOError\<close>: \<^verbatim>\<open>open(p, "r")\<close> fails. \<open>AttributeError\<close>: an attribute is read that the
  object does not have (\<^verbatim>\<open>None.split\<close>, \<^verbatim>\<open>self.pos\<close> before it was ever assigned).
  \<open>IndexError\<close>: a list index out of range. \<open>InvalidRef\<close> is not a Python exception: it
  is the model's answer when a reference names no object of the heap, which a Python
  program cannot bring about.
\<close>

datatype error = IOError | AttributeError | IndexError | InvalidRef

subsection \<open>The string methods the code calls\<close>

definition tab :: char where
  "tab = CHR 0x09"

definition newline :: char where
  "newline = CHR 0x0A"

text \<open>\<^verbatim>\<open>str.isspace\<close> on one character, for the code points below 256.\<close>

definition isspace :: "char \<Rightarrow> bool" where
  "isspace c = (let n = (of_char c :: nat)
                in (9 \<le> n \<and> n \<le> 13) \<or> (28 \<le> n \<and> n \<le> 32) \<or> n = 133 \<or> n = 160)"

text \<open>
  \<^verbatim>\<open>s.split()\<close>: the maximal runs of non-whitespace characters, in order. The second
  argument is the token scanned so far.
\<close>

fun split_scan :: "string \<Rightarrow> string \<Rightarrow> string list" where
  "split_scan [] w = (if w = [] then [] else [w])"
| "split_scan (c # cs) w =
     (if isspace c then (if w = [] then split_scan cs [] else w # split_scan cs [])
      else split_scan cs (w @ [c]))"

definition split :: "string \<Rightarrow> string list" where
  "split s = split_scan s []"

text \<open>
  \<^verbatim>\<open>s.split(sep)\<close> for a one-character separator: every occurrence of the separator
  ends a field, empty fields are kept, and the result is never empty.
\<close>

fun split_sep_scan :: "char \<Rightarrow> string \<Rightarrow> string \<Rightarrow> string list" where
  "split_sep_scan sep [] w = [w]"
| "split_sep_scan sep (c # cs) w =
     (if c = sep then w # split_sep_scan sep cs [] else split_sep_scan sep cs (w @ [c]))"

definition split_sep :: "char \<Rightarrow> string \<Rightarrow> string list" where
  "split_sep sep s = split_sep_scan sep s []"

text \<open>\<^verbatim>\<open>s.strip()\<close>: whitespace removed at both ends.\<close>

definition strip :: "string \<Rightarrow> string" where
  "strip s = rev (dropWhile isspace (rev (dropWhile isspace s)))"

text \<open>\<^verbatim>\<open>s.replace(old, new)\<close> for one-character \<^verbatim>\<open>old\<close> and \<^verbatim>\<open>new\<close>.\<close>

definition replace :: "char \<Rightarrow> char \<Rightarrow> string \<Rightarrow> string" where
  "replace old new s = map (\<lambda>c. if c = old then new else c) s"

text \<open>\<^verbatim>\<open>sep.join(xs)\<close>.\<close>

fun join :: "string \<Rightarrow> string list \<Rightarrow> string" where
  "join sep [] = []"
| "join sep [x] = x"
| "join sep (x # y # ys) = x @ sep @ join sep (y # ys)"

text \<open>\<^verbatim>\<open>"'%s'" % x\<close> for a string \<^verbatim>\<open>x\<close>.\<close>

definition quoted :: "string \<Rightarrow> string" where
  "quoted x = [CHR 0x27] @ x @ [CHR 0x27]"

subsection \<open>Files\<close>

text \<open>
  The code sees a file only through \<^verbatim>\<open>open(p, "r")\<close> and \<^verbatim>\<open>for line in infile\<close>. The file
  system is therefore a map from a path to the lines the iteration yields, each with
  its line terminator; a path the map has no entry for cannot be opened.
\<close>

type_synonym files = "string \<rightharpoonup> string list"

subsection \<open>\<^verbatim>\<open>_getfiledata\<close>\<close>

text \<open>
  The body of the inner loop appends
  \<^verbatim>\<open>line.replace("\t", ",").strip().split(',')\<close> to \<^verbatim>\<open>data\<close>.
\<close>

definition row_of :: "string \<Rightarrow> string list" where
  "row_of line = split_sep CHR '','' (strip (replace tab CHR '','' line))"

text \<open>
  The inner loop \<^verbatim>\<open>for line in infile\<close> over the local variables
  \<^verbatim>\<open>(columns, data, counter)\<close>. The append to \<^verbatim>\<open>data\<close> is not under the
  \<^verbatim>\<open>if columns is None\<close>: it runs for every line.
\<close>

fun read_lines ::
  "string list \<Rightarrow> string option \<times> string list list \<times> int
     \<Rightarrow> string option \<times> string list list \<times> int" where
  "read_lines [] st = st"
| "read_lines (line # rest) (columns, data, counter) =
     read_lines rest
       (if columns = None then Some line else columns, data @ [row_of line], counter + 1)"

text \<open>The outer loop \<^verbatim>\<open>for p in path\<close>; a file that cannot be opened ends it.\<close>

fun read_files ::
  "files \<Rightarrow> string list \<Rightarrow> string option \<times> string list list \<times> int
     \<Rightarrow> error + (string option \<times> string list list \<times> int)" where
  "read_files fs [] st = Inr st"
| "read_files fs (p # ps) st =
     (case fs p of
        None \<Rightarrow> Inl IOError
      | Some infile \<Rightarrow> read_files fs ps (read_lines infile st))"

definition getfiledata :: "files \<Rightarrow> string list \<Rightarrow> error + (string option \<times> string list list)" where
  "getfiledata fs path =
     (case read_files fs path (None, [], 1) of
        Inl e \<Rightarrow> Inl e
      | Inr (columns, data, counter) \<Rightarrow> Inr (columns, data))"

subsection \<open>\<^verbatim>\<open>_Table\<close> and \<^verbatim>\<open>_VirtualTable\<close>\<close>

record Table =
  columns :: "string list"
  data :: "string list list"

text \<open>
  \<^verbatim>\<open>Create(self, db, modulename, dbname, tablename, *args)\<close>. Only \<^verbatim>\<open>args\<close> is used.
  \<^verbatim>\<open>columns.split()\<close> raises when no line was read and \<^verbatim>\<open>columns\<close> is still
  \<^verbatim>\<open>None\<close>. The result is the schema string and the state of the new \<^verbatim>\<open>_Table\<close>.
\<close>

definition Create ::
  "files \<Rightarrow> 'db \<Rightarrow> string \<Rightarrow> string \<Rightarrow> string \<Rightarrow> string list \<Rightarrow> error + (string \<times> Table)" where
  "Create fs db modulename dbname tablename args =
     (case getfiledata fs args of
        Inl e \<Rightarrow> Inl e
      | Inr (columns0, data0) \<Rightarrow>
          (case columns0 of
             None \<Rightarrow> Inl AttributeError
           | Some line \<Rightarrow>
               (let columns1 = split line;
                    schema = ''create table foo('' @ join '','' (map quoted columns1) @ '')''
                in Inr (schema, \<lparr>columns = columns1, data = data0\<rparr>))))"

text \<open>\<^verbatim>\<open>Connect = Create\<close>: the class binds both names to one function.\<close>

definition Connect ::
  "files \<Rightarrow> 'db \<Rightarrow> string \<Rightarrow> string \<Rightarrow> string \<Rightarrow> string list \<Rightarrow> error + (string \<times> Table)" where
  "Connect = Create"

subsection \<open>Objects\<close>

text \<open>
  A \<^verbatim>\<open>_Cursor\<close> holds a reference to its \<^verbatim>\<open>_Table\<close>, and several cursors may hold
  the same one, so objects live in a heap and are named by references.
  \<^verbatim>\<open>_Cursor.__init__\<close> assigns \<^verbatim>\<open>self.table\<close> only: the attribute \<^verbatim>\<open>pos\<close> exists from
  the first \<^verbatim>\<open>Filter\<close> on, and \<open>pos = None\<close> says that it does not exist yet.
\<close>

type_synonym ref = nat

record Cursor =
  table :: ref
  pos :: "int option"

record heap =
  tables :: "ref \<rightharpoonup> Table"
  cursors :: "ref \<rightharpoonup> Cursor"
  next_ref :: ref

text \<open>No object lives at or beyond the next reference to be handed out.\<close>

definition heap_ok :: "heap \<Rightarrow> bool" where
  "heap_ok h = (\<forall>r. next_ref h \<le> r \<longrightarrow> cursors h r = None \<and> tables h r = None)"

text \<open>
  The subscript \<^verbatim>\<open>xs[i]\<close> of a Python list of length \<open>n\<close>: the indices \<open>0\<close> to
  \<open>n - 1\<close> count from the front, \<open>-n\<close> to \<open>-1\<close> from the back, every other one raises.
\<close>

definition getitem :: "'a list \<Rightarrow> int \<Rightarrow> error + 'a" where
  "getitem xs i =
     (if 0 \<le> i \<and> i < int (length xs) then Inr (xs ! nat i)
      else if - int (length xs) \<le> i \<and> i < 0 then Inr (xs ! nat (int (length xs) + i))
      else Inl IndexError)"

subsection \<open>\<^verbatim>\<open>_Table.Open\<close> and \<^verbatim>\<open>_Cursor\<close>\<close>

text \<open>
  A method takes the reference \<^verbatim>\<open>self\<close> and the heap, and gives what it returns or
  raises together with the heap it leaves behind.
\<close>

text \<open>\<^verbatim>\<open>Open\<close> returns \<^verbatim>\<open>_Cursor(self)\<close>, a new object whose only attribute is \<^verbatim>\<open>table\<close>.\<close>

definition Open :: "ref \<Rightarrow> heap \<Rightarrow> ref \<times> heap" where
  "Open self h =
     (let c = next_ref h
      in (c, h\<lparr>cursors := (cursors h)(c \<mapsto> \<lparr>table = self, pos = None\<rparr>), next_ref := c + 1\<rparr>))"

text \<open>\<^verbatim>\<open>Filter(self, *args)\<close>: \<^verbatim>\<open>self.pos = 0\<close>, whatever the arguments.\<close>

definition Filter :: "ref \<Rightarrow> 'args \<Rightarrow> heap \<Rightarrow> (error + unit) \<times> heap" where
  "Filter self args h =
     (case cursors h self of
        None \<Rightarrow> (Inl InvalidRef, h)
      | Some c \<Rightarrow> (Inr (), h\<lparr>cursors := (cursors h)(self \<mapsto> c\<lparr>pos := Some 0\<rparr>)\<rparr>))"

text \<open>\<^verbatim>\<open>Eof\<close>: \<^verbatim>\<open>self.pos >= len(self.table.data)\<close>; \<^verbatim>\<open>self.pos\<close> is read first.\<close>

definition Eof :: "ref \<Rightarrow> heap \<Rightarrow> (error + bool) \<times> heap" where
  "Eof self h =
     (case cursors h self of
        None \<Rightarrow> (Inl InvalidRef, h)
      | Some c \<Rightarrow>
          (case pos c of
             None \<Rightarrow> (Inl AttributeError, h)
           | Some p \<Rightarrow>
               (case tables h (table c) of
                  None \<Rightarrow> (Inl InvalidRef, h)
                | Some t \<Rightarrow> (Inr (p \<ge> int (length (data t))), h))))"

text \<open>
  \<^verbatim>\<open>Column(self, col)\<close>: \<^verbatim>\<open>self.table.data[self.pos][col]\<close>; \<^verbatim>\<open>self.table.data\<close>
  is read before \<^verbatim>\<open>self.pos\<close>.
\<close>

definition Column :: "ref \<Rightarrow> int \<Rightarrow> heap \<Rightarrow> (error + string) \<times> heap" where
  "Column self col h =
     (case cursors h self of
        None \<Rightarrow> (Inl InvalidRef, h)
      | Some c \<Rightarrow>
          (case tables h (table c) of
             None \<Rightarrow> (Inl InvalidRef, h)
           | Some t \<Rightarrow>
               (case pos c of
                  None \<Rightarrow> (Inl AttributeError, h)
                | Some p \<Rightarrow>
                    (case getitem (data t) p of
                       Inl e \<Rightarrow> (Inl e, h)
                     | Inr row \<Rightarrow> (getitem row col, h)))))"

text \<open>\<^verbatim>\<open>Rowid\<close>: \<^verbatim>\<open>self.table.data[self.pos][0]\<close>.\<close>

definition Rowid :: "ref \<Rightarrow> heap \<Rightarrow> (error + string) \<times> heap" where
  "Rowid self h =
     (case cursors h self of
        None \<Rightarrow> (Inl InvalidRef, h)
      | Some c \<Rightarrow>
          (case tables h (table c) of
             None \<Rightarrow> (Inl InvalidRef, h)
           | Some t \<Rightarrow>
               (case pos c of
                  None \<Rightarrow> (Inl AttributeError, h)
                | Some p \<Rightarrow>
                    (case getitem (data t) p of
                       Inl e \<Rightarrow> (Inl e, h)
                     | Inr row \<Rightarrow> (getitem row 0, h)))))"

text \<open>\<^verbatim>\<open>Next\<close>: \<^verbatim>\<open>self.pos += 1\<close> reads \<^verbatim>\<open>self.pos\<close>, then assigns it.\<close>

definition Next :: "ref \<Rightarrow> heap \<Rightarrow> (error + unit) \<times> heap" where
  "Next self h =
     (case cursors h self of
        None \<Rightarrow> (Inl InvalidRef, h)
      | Some c \<Rightarrow>
          (case pos c of
             None \<Rightarrow> (Inl AttributeError, h)
           | Some p \<Rightarrow> (Inr (), h\<lparr>cursors := (cursors h)(self \<mapsto> c\<lparr>pos := Some (p + 1)\<rparr>)\<rparr>)))"

text \<open>\<^verbatim>\<open>Close\<close>: \<^verbatim>\<open>pass\<close>.\<close>

definition Close :: "ref \<Rightarrow> heap \<Rightarrow> (error + unit) \<times> heap" where
  "Close self h = (Inr (), h)"

subsection \<open>The host engine's calls\<close>

text \<open>
  The host engine calls the methods of a cursor one after the other. A call and what
  it gives back are values, so that a statement can range over all of them.
\<close>

datatype 'args call = CFilter 'args | CEof | CRowid | CColumn int | CNext | CClose

datatype answer = ANone | ABool bool | AStr string

fun answer_of :: "('a \<Rightarrow> answer) \<Rightarrow> (error + 'a) \<times> heap \<Rightarrow> (error + answer) \<times> heap" where
  "answer_of f (Inl e, h) = (Inl e, h)"
| "answer_of f (Inr v, h) = (Inr (f v), h)"

fun invoke :: "'args call \<Rightarrow> ref \<Rightarrow> heap \<Rightarrow> (error + answer) \<times> heap" where
  "invoke (CFilter args) self h = answer_of (\<lambda>_. ANone) (Filter self args h)"
| "invoke CEof self h = answer_of ABool (Eof self h)"
| "invoke CRowid self h = answer_of AStr (Rowid self h)"
| "invoke (CColumn col) self h = answer_of AStr (Column self col h)"
| "invoke CNext self h = answer_of (\<lambda>_. ANone) (Next self h)"
| "invoke CClose self h = answer_of (\<lambda>_. ANone) (Close self h)"

text \<open>\<open>k\<close> calls of \<^verbatim>\<open>Next\<close> in a row; an exception ends the sequence.\<close>

fun Next_times :: "nat \<Rightarrow> ref \<Rightarrow> heap \<Rightarrow> (error + unit) \<times> heap" where
  "Next_times 0 self h = (Inr (), h)"
| "Next_times (Suc k) self h =
     (case Next self h of
        (Inl e, h') \<Rightarrow> (Inl e, h')
      | (Inr u, h') \<Rightarrow> Next_times k self h')"

subsection \<open>The lines a call of \<^verbatim>\<open>_getfiledata\<close> reads\<close>

text \<open>
  The lines of all files of the path list, in the order in which the two loops visit
  them. This is the yardstick the loader is measured against, not part of the code.
\<close>

fun all_lines :: "files \<Rightarrow> string list \<Rightarrow> error + string list" where
  "all_lines fs [] = Inr []"
| "all_lines fs (p # ps) =
     (case fs p of
        None \<Rightarrow> Inl IOError
      | Some infile \<Rightarrow>
          (case all_lines fs ps of Inl e \<Rightarrow> Inl e | Inr rest \<Rightarrow> Inr (infile @ rest)))"

definition first_line :: "string list \<Rightarrow> string option" where
  "first_line ls = (case ls of [] \<Rightarrow> None | l # _ \<Rightarrow> Some l)"

subsection \<open>Concrete inputs\<close>

text \<open>
  The file of the specification's example: the header \<^verbatim>\<open>id\tname\tscore\<close> and the
  two data lines \<^verbatim>\<open>1\tA\t10\<close> and \<^verbatim>\<open>2\tB\t20\<close>.
\<close>

definition example_file :: "string list" where
  "example_file =
     [''id'' @ [tab] @ ''name'' @ [tab] @ ''score'' @ [newline],
      ''1'' @ [tab] @ ''A'' @ [tab] @ ''10'' @ [newline],
      ''2'' @ [tab] @ ''B'' @ [tab] @ ''20'' @ [newline]]"

definition example_files :: files where
  "example_files = [''t.tsv'' \<mapsto> example_file]"

text \<open>The table \<^verbatim>\<open>Create\<close> builds from that file, and a heap that holds it at reference 0.\<close>

definition example_table :: Table where
  "example_table =
     \<lparr>columns = [''id'', ''name'', ''score''],
      data = [[''id'', ''name'', ''score''], [''1'', ''A'', ''10''], [''2'', ''B'', ''20'']]\<rparr>"

definition example_heap :: heap where
  "example_heap = \<lparr>tables = [0 \<mapsto> example_table], cursors = Map.empty, next_ref = 1\<rparr>"

text \<open>Two cursors opened on the table at reference 0, both after their first \<^verbatim>\<open>Filter\<close>.\<close>

definition two_cursors :: heap where
  "two_cursors =
     (let (a, h1) = Open 0 example_heap;
          (b, h2) = Open 0 h1;
          (r3, h3) = Filter a () h2;
          (r4, h4) = Filter b () h3
      in h4)"

text \<open>Two files of two lines each, with the same header line.\<close>

definition two_files :: files where
  "two_files =
     [''a.tsv'' \<mapsto> [''k'' @ [tab] @ ''v'' @ [newline], ''1'' @ [tab] @ ''x'' @ [newline]],
      ''b.tsv'' \<mapsto> [''k'' @ [tab] @ ''v'' @ [newline], ''2'' @ [tab] @ ''y'' @ [newline]]]"

text \<open>A file whose lines hold a blank, a comma and a tab.\<close>

definition mixed_files :: files where
  "mixed_files =
     [''m.tsv'' \<mapsto> [''h'' @ [newline], '' x y '' @ [newline], ''p,q'' @ [tab] @ ''r'' @ [newline]]]"

section \<open>The loader\<close>

subsection \<open>What the two loops compute\<close>

lemma read_lines_eq:
  "read_lines ls (c, d, n) =
     (if c = None then first_line ls else c, d @ map row_of ls, n + int (length ls))"
  by (induction ls arbitrary: c d n) (auto simp: first_line_def)

lemma read_lines_append:
  "read_lines (xs @ ys) st = read_lines ys (read_lines xs st)"
  by (induction xs arbitrary: st) (auto simp: split_paired_all)

lemma read_files_eq:
  "read_files fs ps st =
     (case all_lines fs ps of Inl e \<Rightarrow> Inl e | Inr ls \<Rightarrow> Inr (read_lines ls st))"
  by (induction ps arbitrary: st) (auto simp: read_lines_append split: option.splits sum.splits)

lemma getfiledata_eq:
  "getfiledata fs ps =
     (case all_lines fs ps of
        Inl e \<Rightarrow> Inl e
      | Inr ls \<Rightarrow> Inr (first_line ls, map row_of ls))"
  by (simp add: getfiledata_def read_files_eq read_lines_eq split: sum.splits)

text \<open>Every line read becomes a row, the first one too.\<close>

lemma getfiledata_length:
  "getfiledata fs ps = Inr (c, rows) \<Longrightarrow> all_lines fs ps = Inr ls \<Longrightarrow> length rows = length ls"
  by (auto simp: getfiledata_eq)

lemma all_lines_length:
  "all_lines fs ps = Inr ls \<Longrightarrow> length ls = sum_list (map (\<lambda>p. length (the (fs p))) ps)"
  by (induction ps arbitrary: ls) (auto split: option.splits sum.splits)

lemma Create_eq:
  "Create fs db mn dn tn args =
     (case all_lines fs args of
        Inl e \<Rightarrow> Inl e
      | Inr [] \<Rightarrow> Inl AttributeError
      | Inr (l # ls) \<Rightarrow>
          Inr (''create table foo('' @ join '','' (map quoted (split l)) @ '')'',
               \<lparr>columns = split l, data = map row_of (l # ls)\<rparr>))"
  by (simp add: Create_def getfiledata_eq first_line_def Let_def split: sum.splits list.splits)

lemma all_lines_empty_files:
  "\<forall>p \<in> set ps. fs p = Some [] \<Longrightarrow> all_lines fs ps = Inr []"
  by (induction ps) auto

lemma all_lines_concat:
  "(case all_lines fs ps of
      Inl e \<Rightarrow> e = IOError \<and> (\<exists>p \<in> set ps. fs p = None)
    | Inr ls \<Rightarrow> ls = concat (map (\<lambda>p. the (fs p)) ps) \<and> (\<forall>p \<in> set ps. fs p \<noteq> None))"
  by (induction ps) (auto split: option.splits sum.splits)

subsection \<open>Rows\<close>

lemma split_sep_scan_no_sep:
  "sep \<notin> set s \<Longrightarrow> split_sep_scan sep s w = [w @ s]"
  by (induction s arbitrary: w) auto

lemma in_set_strip: "x \<in> set (strip s) \<Longrightarrow> x \<in> set s"
proof -
  assume "x \<in> set (strip s)"
  then have "x \<in> set (dropWhile isspace (rev (dropWhile isspace s)))"
    by (simp add: strip_def)
  then have "x \<in> set (dropWhile isspace s)"
    using set_dropWhileD by fastforce
  then show "x \<in> set s"
    by (rule set_dropWhileD)
qed

lemma replace_absent: "old \<notin> set s \<Longrightarrow> replace old new s = s"
  by (induction s) (auto simp: replace_def)

lemma row_of_single:
  assumes "tab \<notin> set l" and "CHR '','' \<notin> set l"
  shows "row_of l = [strip l]"
proof -
  have "CHR '','' \<notin> set (strip l)"
    using assms(2) in_set_strip by blast
  then show ?thesis
    by (simp add: row_of_def replace_absent [OF assms(1)] split_sep_def split_sep_scan_no_sep)
qed

lemmas string_eval =
  row_of_def split_sep_def split_def strip_def replace_def quoted_def tab_def newline_def
  isspace_def

subsection \<open>The header line and the row store\<close>

text \<open>
  C1. The specification's example, run on the code. The file has the header line
  \<^verbatim>\<open>id\tname\tscore\<close> and the data lines \<^verbatim>\<open>1\tA\t10\<close> and \<^verbatim>\<open>2\tB\t20\<close>, so H = 3 and
  R = 2. \<^verbatim>\<open>Create\<close> returns the three columns, but its row store has three rows, not two:
  the header line is its first row. After \<^verbatim>\<open>Open\<close> and \<^verbatim>\<open>Filter\<close>, \<^verbatim>\<open>Rowid\<close> is
  \<^verbatim>\<open>"id"\<close> and \<^verbatim>\<open>Column(1)\<close> is \<^verbatim>\<open>"name"\<close>; after one \<^verbatim>\<open>Next\<close>, \<^verbatim>\<open>Rowid\<close> is \<^verbatim>\<open>"1"\<close>;
  after a second \<^verbatim>\<open>Next\<close>, \<^verbatim>\<open>Eof\<close> is still false.
\<close>

theorem Create_example_keeps_header:
  "Create example_files () ''tsv'' ''main'' ''t'' [''t.tsv''] =
     Inr (''create table foo('' @ quoted ''id'' @ '','' @ quoted ''name'' @ '','' @
            quoted ''score'' @ '')'',
          \<lparr>columns = [''id'', ''name'', ''score''],
           data = [[''id'', ''name'', ''score''], [''1'', ''A'', ''10''], [''2'', ''B'', ''20'']]\<rparr>) \<and>
   (let (c, h1) = Open 0 example_heap;
        (r2, h2) = Filter c () h1;
        (r3, h3) = Next c h2;
        (r4, h4) = Next c h3
    in (fst (Eof c h2), fst (Rowid c h2), fst (Column c 1 h2), fst (Rowid c h3), fst (Eof c h4))) =
   (Inr False, Inr ''id'', Inr ''name'', Inr ''1'', Inr False)"
proof -
  have "Create example_files () ''tsv'' ''main'' ''t'' [''t.tsv''] =
     Inr (''create table foo('' @ quoted ''id'' @ '','' @ quoted ''name'' @ '','' @
            quoted ''score'' @ '')'',
          \<lparr>columns = [''id'', ''name'', ''score''],
           data = [[''id'', ''name'', ''score''], [''1'', ''A'', ''10''], [''2'', ''B'', ''20'']]\<rparr>)"
    by (simp add: Create_eq example_files_def example_file_def string_eval)
  moreover have "(let (c, h1) = Open 0 example_heap;
        (r2, h2) = Filter c () h1;
        (r3, h3) = Next c h2;
        (r4, h4) = Next c h3
    in (fst (Eof c h2), fst (Rowid c h2), fst (Column c 1 h2), fst (Rowid c h3), fst (Eof c h4))) =
   (Inr False, Inr ''id'', Inr ''name'', Inr ''1'', Inr False)"
    by (simp add: example_heap_def example_table_def Open_def Filter_def Next_def Rowid_def
                  Column_def Eof_def getitem_def)
  ultimately show ?thesis
    by (rule conjI)
qed

text \<open>
  C2. Two files of two lines each, on the code. The row store has four rows, the sum
  of the line counts, and not that sum minus one: the header line of the first file is
  a row, as the first line of the second file is.
\<close>

theorem getfiledata_two_files_keeps_all_lines:
  "getfiledata two_files [''a.tsv'', ''b.tsv''] =
     Inr (Some (''k'' @ [tab] @ ''v'' @ [newline]),
          [[''k'', ''v''], [''1'', ''x''], [''k'', ''v''], [''2'', ''y'']]) \<and>
   sum_list (map (\<lambda>p. length (the (two_files p))) [''a.tsv'', ''b.tsv'']) = 4"
  by (simp add: getfiledata_eq first_line_def two_files_def string_eval)

text \<open>
  C3, as amended. The data lines are the lines read after the first one, the first
  lines of the second and later files included. When the loader returns, the rows of
  the data lines are the last rows of the row store, line by line and in reading
  order, and the row of a data line holds the fields obtained by replacing every tab of
  the line by a comma, removing the whitespace at both ends, and splitting at every
  comma; nothing is quoted or escaped. A data line with neither a tab nor a comma gives
  a single field, the line without the whitespace at its two ends. At most one row
  stands before the rows of the data lines, and the statement does not say which.
\<close>

theorem getfiledata_data_rows:
  "getfiledata fs path = Inr (cols, rows) \<Longrightarrow>
     (\<exists>ls pre. all_lines fs path = Inr ls \<and> length pre \<le> 1 \<and>
        rows = pre @ map (\<lambda>line. split_sep CHR '','' (strip (replace tab CHR '','' line))) (tl ls) \<and>
        (\<forall>line \<in> set (tl ls). tab \<notin> set line \<and> CHR '','' \<notin> set line \<longrightarrow>
           split_sep CHR '','' (strip (replace tab CHR '','' line)) = [strip line]))"
proof -
  assume "getfiledata fs path = Inr (cols, rows)"
  then obtain ls where ls: "all_lines fs path = Inr ls" and rows: "rows = map row_of ls"
    by (auto simp: getfiledata_eq split: sum.splits)
  define pre where "pre = map row_of (take 1 ls)"
  have "map row_of ls = map row_of (take 1 ls @ drop 1 ls)"
    by simp
  then have "rows = pre @ map row_of (tl ls)"
    unfolding rows pre_def by (simp add: drop_Suc)
  then have "rows = pre @ map (\<lambda>line. split_sep CHR '','' (strip (replace tab CHR '','' line))) (tl ls)"
    by (simp add: row_of_def [abs_def])
  moreover have "length pre \<le> 1"
    by (simp add: pre_def)
  moreover have "\<forall>line \<in> set (tl ls). tab \<notin> set line \<and> CHR '','' \<notin> set line \<longrightarrow>
      split_sep CHR '','' (strip (replace tab CHR '','' line)) = [strip line]"
    using row_of_single by (simp add: row_of_def)
  ultimately show ?thesis
    using ls by blast
qed

text \<open>
  The amended statement at a file of a header line and two data lines; the first data
  line holds blanks only, inside and at its ends, the second a comma and a tab.
\<close>

theorem getfiledata_data_rows_witness:
  "all_lines mixed_files [''m.tsv''] =
     Inr [''h'' @ [newline], '' x y '' @ [newline], ''p,q'' @ [tab] @ ''r'' @ [newline]] \<and>
   map_sum id (\<lambda>(cols, rows). drop (length rows - 2) rows) (getfiledata mixed_files [''m.tsv'']) =
     Inr [[''x y''], [''p'', ''q'', ''r'']] \<and>
   split_sep CHR '','' (strip (replace tab CHR '','' ('' x y '' @ [newline]))) =
     [strip ('' x y '' @ [newline])] \<and>
   strip ('' x y '' @ [newline]) = ''x y''"
proof -
  let ?ls = "[''h'' @ [newline], '' x y '' @ [newline], ''p,q'' @ [tab] @ ''r'' @ [newline]]"
  let ?f = "\<lambda>line. split_sep CHR '','' (strip (replace tab CHR '','' line))"
  have a: "all_lines mixed_files [''m.tsv''] = Inr ?ls"
    by (simp add: mixed_files_def)
  define cols where "cols = first_line ?ls"
  define rows where "rows = map row_of ?ls"
  have g: "getfiledata mixed_files [''m.tsv''] = Inr (cols, rows)"
    unfolding getfiledata_eq a cols_def rows_def by simp
  from getfiledata_data_rows [OF g] a obtain pre where
    pre: "rows = pre @ map ?f (tl ?ls)" and
    single: "\<forall>line \<in> set (tl ?ls). tab \<notin> set line \<and> CHR '','' \<notin> set line \<longrightarrow>
      ?f line = [strip line]"
    by auto
  have "map ?f (tl ?ls) = [[''x y''], [''p'', ''q'', ''r'']]"
    by (simp add: string_eval)
  then have "drop (length rows - 2) rows = [[''x y''], [''p'', ''q'', ''r'']]"
    using pre by simp
  moreover have "?f ('' x y '' @ [newline]) = [strip ('' x y '' @ [newline])]"
    using single by (simp add: tab_def newline_def)
  moreover have "strip ('' x y '' @ [newline]) = ''x y''"
    by (simp add: string_eval)
  ultimately show ?thesis
    using g a by simp
qed

text \<open>
  The statement as the specification has it fails on a data line: in a file of a
  header line and the data line \<^verbatim>\<open>a,b\<close>, the data line has no tab, and its row has
  the two fields \<^verbatim>\<open>a\<close> and \<^verbatim>\<open>b\<close>, not the whole line as one.
\<close>

theorem data_line_comma_counterexample:
  "all_lines [''c.tsv'' \<mapsto> [''h'' @ [newline], ''a,b'' @ [newline]]] [''c.tsv''] =
     Inr [''h'' @ [newline], ''a,b'' @ [newline]] \<and>
   tab \<notin> set (''a,b'' @ [newline]) \<and>
   map_sum id (\<lambda>(cols, rows). last rows)
     (getfiledata [''c.tsv'' \<mapsto> [''h'' @ [newline], ''a,b'' @ [newline]]] [''c.tsv'']) =
     Inr [''a'', ''b''] \<and>
   [''a'', ''b''] \<noteq> [''a,b'']"
  by (simp add: getfiledata_eq first_line_def string_eval)

section \<open>Create and Connect\<close>

text \<open>
  C6. \<^verbatim>\<open>Connect\<close> computes what \<^verbatim>\<open>Create\<close> computes, for every file system and every
  argument list, and both do the full load of the files as they are at the call: when
  a file of the list cannot be opened they raise \<open>IOError\<close>, when no line is read they
  raise \<open>AttributeError\<close>, and otherwise they return the schema string built from the
  tokens of the first line read, and the table of these column names whose row store
  holds the row of every line of every file, in the order of the list.
\<close>

theorem Connect_same_as_Create:
  "Connect fs db mn dn tn args = Create fs db mn dn tn args \<and>
   Connect fs db mn dn tn args =
     (case all_lines fs args of
        Inl e \<Rightarrow> Inl e
      | Inr [] \<Rightarrow> Inl AttributeError
      | Inr (l # ls) \<Rightarrow>
          Inr (''create table foo('' @
                 join '','' (map (\<lambda>c. [CHR 0x27] @ c @ [CHR 0x27]) (split l)) @ '')'',
               \<lparr>columns = split l,
                data = map (\<lambda>line. split_sep CHR '','' (strip (replace tab CHR '','' line)))
                         (l # ls)\<rparr>)) \<and>
   (case all_lines fs args of
      Inl e \<Rightarrow> e = IOError \<and> (\<exists>p \<in> set args. fs p = None)
    | Inr ls \<Rightarrow> ls = concat (map (\<lambda>p. the (fs p)) args) \<and> (\<forall>p \<in> set args. fs p \<noteq> None))"
proof -
  have "Connect fs db mn dn tn args = Create fs db mn dn tn args"
    by (simp add: Connect_def)
  moreover have "Connect fs db mn dn tn args =
     (case all_lines fs args of
        Inl e \<Rightarrow> Inl e
      | Inr [] \<Rightarrow> Inl AttributeError
      | Inr (l # ls) \<Rightarrow>
          Inr (''create table foo('' @
                 join '','' (map (\<lambda>c. [CHR 0x27] @ c @ [CHR 0x27]) (split l)) @ '')'',
               \<lparr>columns = split l,
                data = map (\<lambda>line. split_sep CHR '','' (strip (replace tab CHR '','' line)))
                         (l # ls)\<rparr>))"
    by (simp add: Connect_def Create_eq quoted_def [abs_def] row_of_def [abs_def]
             split: sum.splits list.splits)
  moreover have "(case all_lines fs args of
      Inl e \<Rightarrow> e = IOError \<and> (\<exists>p \<in> set args. fs p = None)
    | Inr ls \<Rightarrow> ls = concat (map (\<lambda>p. the (fs p)) args) \<and> (\<forall>p \<in> set args. fs p \<noteq> None))"
    by (rule all_lines_concat)
  ultimately show ?thesis
    by blast
qed

text \<open>
  The statement at the file of three lines, and at a path list whose second file
  cannot be opened.
\<close>

theorem Connect_same_as_Create_witness:
  "Connect example_files () ''tsv'' ''main'' ''t'' [''t.tsv''] =
     Inr (''create table foo('' @ quoted ''id'' @ '','' @ quoted ''name'' @ '','' @
            quoted ''score'' @ '')'', example_table) \<and>
   Create example_files () ''tsv'' ''main'' ''t'' [''t.tsv''] =
     Inr (''create table foo('' @ quoted ''id'' @ '','' @ quoted ''name'' @ '','' @
            quoted ''score'' @ '')'', example_table) \<and>
   Connect example_files () ''tsv'' ''main'' ''t'' [''t.tsv'', ''u.tsv''] = Inl IOError"
proof -
  note th = Connect_same_as_Create [of example_files "()" "''tsv''" "''main''" "''t''" "[''t.tsv'']"]
  note th2 = Connect_same_as_Create
    [of example_files "()" "''tsv''" "''main''" "''t''" "[''t.tsv'', ''u.tsv'']"]
  have a: "all_lines example_files [''t.tsv''] = Inr example_file"
    by (simp add: example_files_def)
  have b: "all_lines example_files [''t.tsv'', ''u.tsv''] = Inl IOError"
    by (simp add: example_files_def)
  have c: "Connect example_files () ''tsv'' ''main'' ''t'' [''t.tsv''] =
     Inr (''create table foo('' @ quoted ''id'' @ '','' @ quoted ''name'' @ '','' @
            quoted ''score'' @ '')'', example_table)"
    unfolding th [THEN conjunct2, THEN conjunct1] a
    by (simp add: example_file_def example_table_def string_eval)
  have d: "Connect example_files () ''tsv'' ''main'' ''t'' [''t.tsv'', ''u.tsv''] = Inl IOError"
    unfolding th2 [THEN conjunct2, THEN conjunct1] b by simp
  have "Create example_files () ''tsv'' ''main'' ''t'' [''t.tsv''] =
     Inr (''create table foo('' @ quoted ''id'' @ '','' @ quoted ''name'' @ '','' @
            quoted ''score'' @ '')'', example_table)"
    using c th [THEN conjunct1] by simp
  then show ?thesis
    using c d by simp
qed

text \<open>
  C9. When every path of the list names a file without lines (the empty list
  included), \<^verbatim>\<open>Create\<close> and \<^verbatim>\<open>Connect\<close> raise \<open>AttributeError\<close>. When \<^verbatim>\<open>Create\<close> returns
  a table without columns, a first line was read, it splits into no token, and the
  schema string is \<^verbatim>\<open>create table foo()\<close>.
\<close>

theorem Create_without_header_fails:
  "((\<forall>p \<in> set args. fs p = Some []) \<longrightarrow>
      Create fs db mn dn tn args = Inl AttributeError \<and>
      Connect fs db mn dn tn args = Inl AttributeError) \<and>
   (Create fs db mn dn tn args = Inr (schema, t) \<and> columns t = [] \<longrightarrow>
      (\<exists>l ls. all_lines fs args = Inr (l # ls) \<and> split l = [] \<and>
         schema = ''create table foo()''))"
  by (auto simp: Create_eq Connect_def all_lines_empty_files split: sum.splits list.splits)

text \<open>
  The statement at the empty path list, at one file without lines, and at one file
  whose only line is a line terminator.
\<close>

theorem Create_without_header_fails_witness:
  "Create Map.empty () ''tsv'' ''main'' ''t'' [] = Inl AttributeError \<and>
   Create [''e.tsv'' \<mapsto> []] () ''tsv'' ''main'' ''t'' [''e.tsv''] = Inl AttributeError \<and>
   Create [''n.tsv'' \<mapsto> [[newline]]] () ''tsv'' ''main'' ''t'' [''n.tsv''] =
     Inr (''create table foo()'', \<lparr>columns = [], data = [['''']]\<rparr>) \<and>
   all_lines [''n.tsv'' \<mapsto> [[newline]]] [''n.tsv''] = Inr [[newline]] \<and>
   split [newline] = []"
proof -
  have "Create Map.empty () ''tsv'' ''main'' ''t'' [] = Inl AttributeError"
    using Create_without_header_fails [of "[]" Map.empty "()" "''tsv''" "''main''" "''t''"]
    by simp
  moreover have "Create [''e.tsv'' \<mapsto> []] () ''tsv'' ''main'' ''t'' [''e.tsv''] = Inl AttributeError"
    using Create_without_header_fails
      [of "[''e.tsv'']" "[''e.tsv'' \<mapsto> []]" "()" "''tsv''" "''main''" "''t''"]
    by simp
  moreover have c: "Create [''n.tsv'' \<mapsto> [[newline]]] () ''tsv'' ''main'' ''t'' [''n.tsv''] =
      Inr (''create table foo()'', \<lparr>columns = [], data = [['''']]\<rparr>)"
    by (simp add: Create_eq string_eval)
  moreover have a: "all_lines [''n.tsv'' \<mapsto> [[newline]]] [''n.tsv''] = Inr [[newline]]"
    by simp
  moreover have "split [newline] = []"
    using Create_without_header_fails
      [of "[''n.tsv'']" "[''n.tsv'' \<mapsto> [[newline]]]" "()" "''tsv''" "''main''" "''t''"
          "''create table foo()''" "\<lparr>columns = [], data = [['''']]\<rparr>"] c a
    by auto
  ultimately show ?thesis
    by simp
qed

text \<open>
  C10. When \<^verbatim>\<open>Create\<close> returns, the schema string is \<^verbatim>\<open>create table foo(\<close>, the
  column names each between single quotes and separated by commas, and \<^verbatim>\<open>)\<close>; the
  column names are the whitespace-separated tokens of the first line read. The
  arguments \<^verbatim>\<open>db\<close>, \<^verbatim>\<open>modulename\<close>, \<^verbatim>\<open>dbname\<close> and \<^verbatim>\<open>tablename\<close> have no part in it: with
  any other ones \<^verbatim>\<open>Create\<close> and \<^verbatim>\<open>Connect\<close> return the same string and the same table.
\<close>

theorem Create_schema_ignores_tablename:
  "Create fs db mn dn tn args = Inr (schema, t) \<Longrightarrow>
     schema = ''create table foo('' @
        join '','' (map (\<lambda>c. [CHR 0x27] @ c @ [CHR 0x27]) (columns t)) @ '')'' \<and>
     (\<exists>l ls. all_lines fs args = Inr (l # ls) \<and> columns t = split l) \<and>
     Create fs db' mn' dn' tn' args = Inr (schema, t) \<and>
     Connect fs db' mn' dn' tn' args = Inr (schema, t)"
  by (auto simp: Create_eq Connect_def quoted_def [abs_def] split: sum.splits list.splits)

theorem Create_schema_ignores_tablename_witness:
  "Create example_files () ''tsv'' ''main'' ''t'' [''t.tsv''] =
     Inr (''create table foo('' @ quoted ''id'' @ '','' @ quoted ''name'' @ '','' @
            quoted ''score'' @ '')'', example_table) \<and>
   Create example_files (0::nat) ''csv'' ''temp'' ''scores'' [''t.tsv''] =
     Inr (''create table foo('' @ quoted ''id'' @ '','' @ quoted ''name'' @ '','' @
            quoted ''score'' @ '')'', example_table)"
proof -
  have c: "Create example_files () ''tsv'' ''main'' ''t'' [''t.tsv''] =
     Inr (''create table foo('' @ quoted ''id'' @ '','' @ quoted ''name'' @ '','' @
            quoted ''score'' @ '')'', example_table)"
    by (simp add: Create_eq example_files_def example_file_def example_table_def string_eval)
  from Create_schema_ignores_tablename [OF c, of "0::nat" "''csv''" "''temp''" "''scores''"]
  show ?thesis
    using c by simp
qed

section \<open>Cursors\<close>

subsection \<open>Single calls\<close>

lemma Filter_eq:
  "cursors h c = Some cur \<Longrightarrow>
     \<exists>h'. Filter c args h = (Inr (), h') \<and>
          cursors h' = (cursors h)(c \<mapsto> cur\<lparr>pos := Some 0\<rparr>) \<and>
          tables h' = tables h \<and> next_ref h' = next_ref h"
  by (simp add: Filter_def)

lemma Eof_eq:
  "cursors h c = Some cur \<Longrightarrow> pos cur = Some p \<Longrightarrow> tables h (table cur) = Some t \<Longrightarrow>
     Eof c h = (Inr (int (length (data t)) \<le> p), h)"
  by (simp add: Eof_def)

lemma Next_times_eq:
  "cursors h c = Some cur \<Longrightarrow> pos cur = Some p \<Longrightarrow>
     \<exists>h'. Next_times k c h = (Inr (), h') \<and>
          cursors h' = (cursors h)(c \<mapsto> cur\<lparr>pos := Some (p + int k)\<rparr>) \<and>
          tables h' = tables h \<and> next_ref h' = next_ref h"
proof (induction k arbitrary: h cur p)
  case 0
  then have "(cursors h)(c \<mapsto> cur\<lparr>pos := Some p\<rparr>) = cursors h"
    by (auto simp: fun_upd_idem)
  then show ?case by simp
next
  case (Suc k)
  let ?cur = "cur\<lparr>pos := Some (p + 1)\<rparr>"
  let ?h = "h\<lparr>cursors := (cursors h)(c \<mapsto> ?cur)\<rparr>"
  have step: "Next c h = (Inr (), ?h)"
    using Suc.prems by (simp add: Next_def)
  have "cursors ?h c = Some ?cur" and "pos ?cur = Some (p + 1)"
    by simp_all
  from Suc.IH [OF this] obtain h' where
    h': "Next_times k c ?h = (Inr (), h')"
        "cursors h' = (cursors ?h)(c \<mapsto> ?cur\<lparr>pos := Some (p + 1 + int k)\<rparr>)"
        "tables h' = tables ?h" "next_ref h' = next_ref ?h"
    by blast
  have "Next_times (Suc k) c h = (Inr (), h')"
    using step h'(1) by simp
  moreover have "cursors h' = (cursors h)(c \<mapsto> cur\<lparr>pos := Some (p + int (Suc k))\<rparr>)"
    using h'(2) by (simp add: ac_simps)
  moreover have "tables h' = tables h" and "next_ref h' = next_ref h"
    using h'(3,4) by simp_all
  ultimately show ?case
    by blast
qed

lemma Eof_after_Next_times:
  assumes "cursors h c = Some cur" and "tables h (table cur) = Some t"
  shows "fst (Next_times k c (snd (Filter c args h))) = Inr () \<and>
         fst (Eof c (snd (Next_times k c (snd (Filter c args h))))) = Inr (length (data t) \<le> k)"
proof -
  from Filter_eq [OF assms(1), of args] obtain h0 where
    h0: "Filter c args h = (Inr (), h0)" "cursors h0 = (cursors h)(c \<mapsto> cur\<lparr>pos := Some 0\<rparr>)"
        "tables h0 = tables h"
    by blast
  have "cursors h0 c = Some (cur\<lparr>pos := Some 0\<rparr>)" and "pos (cur\<lparr>pos := Some 0\<rparr>) = Some 0"
    using h0(2) by simp_all
  from Next_times_eq [OF this, of k] obtain hk where
    hk: "Next_times k c h0 = (Inr (), hk)"
        "cursors hk = (cursors h0)(c \<mapsto> cur\<lparr>pos := Some 0, pos := Some (0 + int k)\<rparr>)"
        "tables hk = tables h0"
    by blast
  have "Eof c hk = (Inr (int (length (data t)) \<le> int k), hk)"
    by (rule Eof_eq [where cur = "cur\<lparr>pos := Some (int k)\<rparr>"])
       (simp_all add: hk(2,3) h0(3) assms(2))
  then show ?thesis
    using h0(1) hk(1) by simp
qed

lemma answer_of_heap: "snd (answer_of f r) = snd r"
  by (cases r; cases "fst r") auto

lemma answer_of_result:
  "fst (answer_of f (r, h)) = (case r of Inl e \<Rightarrow> Inl e | Inr v \<Rightarrow> Inr (f v))"
  by (cases r) auto

lemmas cursor_eval =
  Open_def Filter_def Eof_def Rowid_def Column_def Next_def Close_def getitem_def

subsection \<open>End of data\<close>

text \<open>
  C4. Let \<open>c\<close> be a cursor of the heap whose table \<open>t\<close> has N rows. Right after
  \<^verbatim>\<open>Filter\<close>, \<^verbatim>\<open>Eof\<close> returns true exactly when the row store is empty. For every
  \<open>k < N\<close>, \<open>k\<close> calls of \<^verbatim>\<open>Next\<close> after the \<^verbatim>\<open>Filter\<close> succeed and \<^verbatim>\<open>Eof\<close> then returns
  false; N calls of \<^verbatim>\<open>Next\<close> succeed and \<^verbatim>\<open>Eof\<close> then returns true.
\<close>

theorem Eof_after_Filter_and_Next:
  assumes "cursors h c = Some cur" and "tables h (table cur) = Some t"
  shows "fst (Eof c (snd (Filter c args h))) = Inr (data t = []) \<and>
         (\<forall>k < length (data t).
            fst (Next_times k c (snd (Filter c args h))) = Inr () \<and>
            fst (Eof c (snd (Next_times k c (snd (Filter c args h))))) = Inr False) \<and>
         fst (Next_times (length (data t)) c (snd (Filter c args h))) = Inr () \<and>
         fst (Eof c (snd (Next_times (length (data t)) c (snd (Filter c args h))))) = Inr True"
proof -
  have "fst (Eof c (snd (Filter c args h))) = Inr (data t = [])"
    using Eof_after_Next_times [OF assms, of 0 args] by simp
  then show ?thesis
    using Eof_after_Next_times [OF assms, of _ args] by simp
qed

text \<open>The statement at a cursor opened on the table of three rows.\<close>

theorem Eof_after_Filter_and_Next_witness:
  "cursors (snd (Open 0 example_heap)) 1 = Some \<lparr>table = 0, pos = None\<rparr> \<and>
   tables (snd (Open 0 example_heap)) 0 = Some example_table \<and>
   fst (Eof 1 (snd (Filter 1 () (snd (Open 0 example_heap))))) = Inr False \<and>
   fst (Eof 1 (snd (Next_times 2 1 (snd (Filter 1 () (snd (Open 0 example_heap))))))) =
     Inr False \<and>
   fst (Eof 1 (snd (Next_times 3 1 (snd (Filter 1 () (snd (Open 0 example_heap))))))) =
     Inr True"
proof -
  let ?h = "snd (Open 0 example_heap)"
  have c: "cursors ?h 1 = Some \<lparr>table = 0, pos = None\<rparr>"
    by (simp add: Open_def example_heap_def)
  have t: "tables ?h (table \<lparr>table = 0, pos = None\<rparr>) = Some example_table"
    by (simp add: Open_def example_heap_def)
  have n: "length (data example_table) = 3"
    by (simp add: example_table_def)
  have d: "data example_table \<noteq> []"
    by (simp add: example_table_def)
  from Eof_after_Filter_and_Next [OF c t, of "()"] n d
  have "fst (Eof 1 (snd (Filter 1 () ?h))) = Inr False"
    and "\<forall>k < 3. fst (Eof 1 (snd (Next_times k 1 (snd (Filter 1 () ?h))))) = Inr False"
    and "fst (Eof 1 (snd (Next_times 3 1 (snd (Filter 1 () ?h))))) = Inr True"
    by simp_all
  then show ?thesis
    using c t by simp
qed

subsection \<open>Two cursors\<close>

text \<open>
  C5. Let \<open>a\<close> and \<open>b\<close> be two different cursors. Any of the calls \<^verbatim>\<open>Filter\<close>, \<^verbatim>\<open>Eof\<close>,
  \<^verbatim>\<open>Rowid\<close>, \<^verbatim>\<open>Column\<close>, \<^verbatim>\<open>Next\<close>, \<^verbatim>\<open>Close\<close> on \<open>a\<close>, whether it returns or raises, leaves
  the cursor \<open>b\<close> and all tables (columns and rows) as they were. What the call on \<open>a\<close>
  answers, and where it leaves \<open>a\<close>, is the same whatever the state of \<open>b\<close>.
\<close>

theorem invoke_leaves_other_cursor:
  "a \<noteq> b \<Longrightarrow>
     cursors (snd (invoke call a h)) b = cursors h b \<and>
     tables (snd (invoke call a h)) = tables h \<and>
     fst (invoke call a (h\<lparr>cursors := (cursors h)(b \<mapsto> cb)\<rparr>)) = fst (invoke call a h) \<and>
     cursors (snd (invoke call a (h\<lparr>cursors := (cursors h)(b \<mapsto> cb)\<rparr>))) a =
       cursors (snd (invoke call a h)) a"
  by (cases call)
     (auto simp: answer_of_heap answer_of_result Filter_def Eof_def Rowid_def Column_def
                 Next_def Close_def
           split: option.splits sum.splits)

text \<open>
  The statement at two cursors opened on one table: they are the references 1 and 2,
  and \<^verbatim>\<open>Next\<close> on the first moves it to 1 and leaves the second at 0.
\<close>

theorem invoke_leaves_other_cursor_witness:
  "(1::nat) \<noteq> 2 \<and>
   cursors two_cursors 1 = Some \<lparr>table = 0, pos = Some 0\<rparr> \<and>
   cursors two_cursors 2 = Some \<lparr>table = 0, pos = Some 0\<rparr> \<and>
   cursors (snd (invoke (CNext :: unit call) 1 two_cursors)) 1 = Some \<lparr>table = 0, pos = Some 1\<rparr> \<and>
   cursors (snd (invoke (CNext :: unit call) 1 two_cursors)) 2 = Some \<lparr>table = 0, pos = Some 0\<rparr> \<and>
   tables (snd (invoke (CNext :: unit call) 1 two_cursors)) = tables two_cursors"
proof -
  have ne: "(1::nat) \<noteq> 2"
    by simp
  have c: "cursors two_cursors 1 = Some \<lparr>table = 0, pos = Some 0\<rparr>"
          "cursors two_cursors 2 = Some \<lparr>table = 0, pos = Some 0\<rparr>"
    by (simp_all add: two_cursors_def example_heap_def Open_def Filter_def)
  have m: "cursors (snd (invoke (CNext :: unit call) 1 two_cursors)) 1 =
      Some \<lparr>table = 0, pos = Some 1\<rparr>"
    using c(1) by (simp add: Next_def)
  from invoke_leaves_other_cursor [OF ne, of "CNext :: unit call" two_cursors] show ?thesis
    using c m by simp
qed

subsection \<open>Close\<close>

text \<open>
  C7, as amended. \<^verbatim>\<open>Close\<close> returns normally and changes nothing, the cursor
  included; there is no closed state. Every call on the cursor after \<^verbatim>\<open>Close\<close> answers
  what it would have answered without the \<^verbatim>\<open>Close\<close>, and leaves the same heap.
\<close>

theorem Close_changes_nothing:
  "Close c h = (Inr (), h) \<and> invoke call c (snd (Close c h)) = invoke call c h"
  by (simp add: Close_def)

text \<open>
  The statement as the specification has it fails: after \<^verbatim>\<open>Open\<close>, \<^verbatim>\<open>Filter\<close> and
  \<^verbatim>\<open>Close\<close>, each of \<^verbatim>\<open>Eof\<close>, \<^verbatim>\<open>Rowid\<close>, \<^verbatim>\<open>Column(1)\<close>, \<^verbatim>\<open>Next\<close> and \<^verbatim>\<open>Filter\<close> returns
  normally.
\<close>

theorem Close_counterexample:
  "(let (c, h1) = Open 0 example_heap;
        (r2, h2) = Filter c () h1;
        (r3, h3) = Close c h2
    in (r3, fst (Eof c h3), fst (Rowid c h3), fst (Column c 1 h3), fst (Next c h3),
        fst (Filter c () h3))) =
   (Inr (), Inr False, Inr ''id'', Inr ''name'', Inr (), Inr ())"
  by (simp add: example_heap_def example_table_def cursor_eval)

subsection \<open>Open\<close>

text \<open>
  C8, as amended. \<^verbatim>\<open>Open\<close> on a table returns a reference that named no object
  before; it now names a cursor that refers to the table and has no position. No
  other cursor and no table has changed. On the new cursor \<^verbatim>\<open>Eof\<close> and \<^verbatim>\<open>Next\<close>, and
  \<^verbatim>\<open>Rowid\<close> and \<^verbatim>\<open>Column\<close> as well, raise \<open>AttributeError\<close> and change nothing;
  \<^verbatim>\<open>Filter\<close> returns normally and gives the cursor the position 0.
\<close>

theorem Open_gives_cursor_without_pos:
  assumes "heap_ok h" and "tables h t = Some tbl" and "Open t h = (c, h1)"
  shows "cursors h c = None \<and>
         cursors h1 c = Some \<lparr>table = t, pos = None\<rparr> \<and>
         (\<forall>r. r \<noteq> c \<longrightarrow> cursors h1 r = cursors h r) \<and>
         tables h1 = tables h \<and>
         heap_ok h1 \<and>
         Eof c h1 = (Inl AttributeError, h1) \<and>
         Next c h1 = (Inl AttributeError, h1) \<and>
         Rowid c h1 = (Inl AttributeError, h1) \<and>
         Column c col h1 = (Inl AttributeError, h1) \<and>
         Filter c args h1 =
           (Inr (), h1\<lparr>cursors := (cursors h1)(c \<mapsto> \<lparr>table = t, pos = Some 0\<rparr>)\<rparr>)"
  using assms
  by (auto simp: heap_ok_def Open_def Let_def Eof_def Next_def Rowid_def Column_def Filter_def)

theorem Open_gives_cursor_without_pos_witness:
  "heap_ok example_heap \<and>
   tables example_heap 0 = Some example_table \<and>
   fst (Open 0 example_heap) = 1 \<and>
   cursors example_heap 1 = None \<and>
   cursors (snd (Open 0 example_heap)) 1 = Some \<lparr>table = 0, pos = None\<rparr> \<and>
   fst (Eof 1 (snd (Open 0 example_heap))) = Inl AttributeError \<and>
   fst (Next 1 (snd (Open 0 example_heap))) = Inl AttributeError \<and>
   fst (Rowid 1 (snd (Open 0 example_heap))) = Inl AttributeError \<and>
   fst (Column 1 0 (snd (Open 0 example_heap))) = Inl AttributeError \<and>
   fst (Filter 1 () (snd (Open 0 example_heap))) = Inr ()"
proof -
  have ok: "heap_ok example_heap"
    by (simp add: heap_ok_def example_heap_def)
  have t: "tables example_heap 0 = Some example_table"
    by (simp add: example_heap_def)
  have op: "Open 0 example_heap = (1, snd (Open 0 example_heap))"
    by (simp add: Open_def example_heap_def)
  have f: "fst (Open 0 example_heap) = 1"
    by (simp add: Open_def example_heap_def)
  from Open_gives_cursor_without_pos [OF ok t op, of 0 "()"] show ?thesis
    using ok t f by simp
qed

text \<open>
  The statement as the specification has it fails: on a cursor fresh from \<^verbatim>\<open>Open\<close>,
  \<^verbatim>\<open>Eof\<close> and \<^verbatim>\<open>Next\<close> raise.
\<close>

theorem Open_Eof_counterexample:
  "(let (c, h1) = Open 0 example_heap in (fst (Eof c h1), fst (Next c h1))) =
   (Inl AttributeError, Inl AttributeError)"
  by (simp add: example_heap_def Open_def Eof_def Next_def)

end
